theory Spec2Isabelle
  imports Main "HOL-Library.Word"
begin

unbundle bit_operations_syntax

section \<open>Messages of the collector pipeline\<close>

text \<open>
  Pointers are addresses; a pointer that may be \<open>NULL\<close> is an \<open>addr option\<close>.
  The type tag of a message is the enum \<open>ipx_msg_type\<close> of the collector's API.
\<close>

type_synonym addr = nat

datatype ipx_msg_type =
  IPX_MSG_IPFIX | IPX_MSG_SESSION | IPX_MSG_GARBAGE | IPX_MSG_TERMINATE | IPX_MSG_PERIODIC

text \<open>\<open>struct ipx_msg\<close>: the header every message starts with; the code reads its \<open>type\<close>.\<close>

record ipx_msg_hdr =
  msg_type :: ipx_msg_type

text \<open>
  Modelled from the spec: \<open>ipx_msg_header_init\<close> (message_base.h, not among the
  sources) sets the type discriminant of a header; \<open>ipx_msg_header_destroy\<close> releases
  nothing that the model tracks.
\<close>

definition ipx_msg_header_init :: "ipx_msg_type \<Rightarrow> ipx_msg_hdr" where
  "ipx_msg_header_init t = \<lparr>msg_type = t\<rparr>"

section \<open>message\_garbage.c\<close>

text \<open>
  \<open>struct ipx_msg_garbage\<close>. The destructor is a function pointer
  \<open>void (*)(void *)\<close>: a state transformer on the part of the memory that the wrapped
  objects live in (type \<open>'w\<close>), \<open>None\<close> for a \<open>NULL\<close> pointer.
\<close>

type_synonym 'w ipx_msg_garbage_cb = "(addr \<Rightarrow> 'w \<Rightarrow> 'w) option"

record 'w ipx_msg_garbage =
  msg_header :: ipx_msg_hdr
  object_ptr :: addr
  object_destructor :: "'w ipx_msg_garbage_cb"

text \<open>
  The memory: the live blocks that hold garbage envelopes, and the objects
  (everything a destructor may touch).
\<close>

record 'w mem =
  envelopes :: "addr \<rightharpoonup> 'w ipx_msg_garbage"
  objects :: 'w

text \<open>What stops the C program instead of returning.\<close>

datatype fault = Assertion_failed | Invalid_pointer | Null_call

text \<open>
  \<open>ipx_msg_garbage_create\<close>. The allocator is a parameter: \<open>malloc m\<close> is the address
  of the block it hands out in memory \<open>m\<close>, or \<open>None\<close> when it fails.
\<close>

definition ipx_msg_garbage_create ::
  "('w mem \<Rightarrow> addr option) \<Rightarrow> addr \<Rightarrow> 'w ipx_msg_garbage_cb \<Rightarrow> 'w mem
     \<Rightarrow> fault + (addr option \<times> 'w mem)" where
  "ipx_msg_garbage_create malloc object callback m =
     (if callback = None then Inl Assertion_failed
      else case malloc m of
        None \<Rightarrow> Inr (None, m)
      | Some msg \<Rightarrow>
          Inr (Some msg,
               m\<lparr>envelopes := (envelopes m)(msg \<mapsto>
                    \<lparr>msg_header = ipx_msg_header_init IPX_MSG_GARBAGE,
                     object_ptr = object,
                     object_destructor = callback\<rparr>)\<rparr>))"

text \<open>
  \<open>ipx_msg_garbage_destroy\<close>: call the destructor on the object, then free the
  envelope. A handle that is not a live envelope is a fault of the C program.
\<close>

definition ipx_msg_garbage_destroy :: "addr \<Rightarrow> 'w mem \<Rightarrow> fault + 'w mem" where
  "ipx_msg_garbage_destroy msg m =
     (case envelopes m msg of
        None \<Rightarrow> Inl Invalid_pointer
      | Some g \<Rightarrow>
          (case object_destructor g of
             None \<Rightarrow> Inl Null_call
           | Some destructor \<Rightarrow>
               (let m1 = m\<lparr>objects := destructor (object_ptr g) (objects m)\<rparr>
                in Inr (m1\<lparr>envelopes := (envelopes m1)(msg := None)\<rparr>))))"

text \<open>An allocator and an instrumented destructor for concrete runs.\<close>

definition malloc_first_free :: "addr list \<Rightarrow> 'w mem \<Rightarrow> addr option" where
  "malloc_first_free pool m = find (\<lambda>a. envelopes m a = None) pool"

definition counting_destructor :: "addr \<Rightarrow> (addr \<Rightarrow> nat) \<Rightarrow> (addr \<Rightarrow> nat)" where
  "counting_destructor obj calls = calls(obj := Suc (calls obj))"

definition mem0 :: "(addr \<Rightarrow> nat) mem" where
  "mem0 = \<lparr>envelopes = Map.empty, objects = (\<lambda>_. 0)\<rparr>"

section \<open>The collaborators of parser\_plugin.c\<close>

text \<open>
  Status codes of the collector's API (api.h, not among the sources). The code only
  compares them with each other, so they are an enumeration; \<open>IPX_ERR_OTHER\<close> stands
  for every code the plugin does not name.
\<close>

datatype ipx_rc =
  IPX_OK | IPX_READY | IPX_ERR_ARG | IPX_ERR_NOMEM | IPX_ERR_DENIED | IPX_ERR_FORMAT
| IPX_ERR_NOTFOUND | IPX_ERR_OTHER int

datatype fds_session_type =
  FDS_SESSION_UDP | FDS_SESSION_TCP | FDS_SESSION_SCTP | FDS_SESSION_FILE

text \<open>\<open>struct ipx_session\<close>: the plugin reads \<open>type\<close> and \<open>ident\<close>.\<close>

record ipx_session =
  session_type :: fds_session_type
  ident :: string

text \<open>\<open>struct ipx_msg_ctx\<close>: the plugin reads \<open>session\<close>.\<close>

record ipx_msg_ctx =
  session :: ipx_session

text \<open>An IPFIX Message: its context and the packet.\<close>

record ipx_msg_ipfix =
  ipx_msg_ipfix_get_ctx :: ipx_msg_ctx
  raw_pkt :: "8 word list"

datatype ipx_msg_session_event = IPX_MSG_SESSION_OPEN | IPX_MSG_SESSION_CLOSE

record ipx_msg_session =
  ipx_msg_session_get_event :: ipx_msg_session_event
  ipx_msg_session_get_session :: ipx_session

text \<open>
  \<open>ipx_msg_t\<close>: the base message with its payload. A garbage message is held by
  its handle. \<open>ipx_msg_ipfix2base\<close>, \<open>ipx_msg_garbage2base\<close> and the casts back are
  the constructors and the case distinction.
\<close>

datatype ipx_msg =
  Msg_ipfix ipx_msg_ipfix
| Msg_session ipx_msg_session
| Msg_garbage addr
| Msg_terminate
| Msg_periodic nat

fun ipx_msg_get_type :: "ipx_msg \<Rightarrow> ipx_msg_type" where
  "ipx_msg_get_type (Msg_ipfix _) = IPX_MSG_IPFIX"
| "ipx_msg_get_type (Msg_session _) = IPX_MSG_SESSION"
| "ipx_msg_get_type (Msg_garbage _) = IPX_MSG_GARBAGE"
| "ipx_msg_get_type Msg_terminate = IPX_MSG_TERMINATE"
| "ipx_msg_get_type (Msg_periodic _) = IPX_MSG_PERIODIC"

text \<open>The lines the plugin writes to the log, one constructor for each call site.\<close>

datatype log_text =
  Allocation_failed
| Close_unknown_session string
| Unexpected_remove_code ipx_rc
| No_feedback_hard_remove string
| Fatal_internal_error
| Unexpected_message_type

datatype log_level = LOG_ERROR | LOG_WARNING

text \<open>
  The plugin context \<open>ipx_ctx_t\<close> together with what the plugin does to its
  surroundings: the private data \<open>cfg\<close> (the parser, of the Registry's type \<open>'p\<close>), the
  feedback pipe if the input plugin has one (type \<open>'f\<close>), the dictionary of
  \<open>ipx_ctx_iemgr_get\<close>, the messages handed to \<open>ipx_ctx_msg_pass\<close> in the order of the
  calls, the IPFIX Messages given to \<open>ipx_msg_ipfix_destroy\<close>, and the log.
\<close>

record ('p, 'f) ipx_ctx =
  cfg :: 'p
  ipx_ctx_fpipe_get :: "'f option"
  ipx_ctx_iemgr_get :: nat
  passed :: "ipx_msg list"
  destroyed :: "ipx_msg_ipfix list"
  log :: "(log_level \<times> log_text) list"

definition ipx_ctx_msg_pass :: "('p, 'f) ipx_ctx \<Rightarrow> ipx_msg \<Rightarrow> ('p, 'f) ipx_ctx" where
  "ipx_ctx_msg_pass ctx msg = ctx\<lparr>passed := passed ctx @ [msg]\<rparr>"

definition ipx_msg_ipfix_destroy ::
  "('p, 'f) ipx_ctx \<Rightarrow> ipx_msg_ipfix \<Rightarrow> ('p, 'f) ipx_ctx" where
  "ipx_msg_ipfix_destroy ctx ipfix = ctx\<lparr>destroyed := destroyed ctx @ [ipfix]\<rparr>"

definition IPX_CTX_WARNING :: "('p, 'f) ipx_ctx \<Rightarrow> log_text \<Rightarrow> ('p, 'f) ipx_ctx" where
  "IPX_CTX_WARNING ctx t = ctx\<lparr>log := log ctx @ [(LOG_WARNING, t)]\<rparr>"

definition IPX_CTX_ERROR :: "('p, 'f) ipx_ctx \<Rightarrow> log_text \<Rightarrow> ('p, 'f) ipx_ctx" where
  "IPX_CTX_ERROR ctx t = ctx\<lparr>log := log ctx @ [(LOG_ERROR, t)]\<rparr>"

text \<open>
  The Registry (parser.h) and the feedback pipe (fpipe.h) are not among the sources:
  their operations are parameters, each a function of the collaborator's state that
  returns its outputs and the new state. Output pointers (\<open>&ipfix\<close>, \<open>&garbage\<close>) are
  results. \<open>ipx_parser_sessions\<close> lists the sessions the Registry knows.
\<close>

record ('p, 'f) extern =
  ipx_parser_process ::
    "'p \<Rightarrow> ipx_msg_ipfix \<Rightarrow> ipx_rc \<times> ipx_msg_ipfix \<times> addr option \<times> 'p"
  ipx_parser_session_remove :: "'p \<Rightarrow> ipx_session \<Rightarrow> ipx_rc \<times> addr option \<times> 'p"
  ipx_parser_session_block :: "'p \<Rightarrow> ipx_session \<Rightarrow> 'p"
  ipx_parser_sessions :: "'p \<Rightarrow> ipx_session list"
  ipx_parser_ie_source :: "'p \<Rightarrow> nat \<Rightarrow> ipx_rc \<times> addr option \<times> 'p"
  ipx_fpipe_write :: "'f \<Rightarrow> ipx_session \<Rightarrow> ipx_rc \<times> 'f"

text \<open>
  Modelled from the spec: \<open>ipx_parser_session_for\<close> (parser.c, not among the sources)
  invokes the callback once per known session, on the sessions known when it is
  called, threading the callback's data and the context through the calls.
\<close>

definition ipx_parser_session_for ::
  "('p, 'f) extern \<Rightarrow> (ipx_session \<Rightarrow> 'd \<times> ('p, 'f) ipx_ctx \<Rightarrow> 'd \<times> ('p, 'f) ipx_ctx)
     \<Rightarrow> 'd \<Rightarrow> ('p, 'f) ipx_ctx \<Rightarrow> 'd \<times> ('p, 'f) ipx_ctx" where
  "ipx_parser_session_for ext cb data ctx =
     fold cb (ipx_parser_sessions ext (cfg ctx)) (data, ctx)"

section \<open>parser\_plugin.c\<close>

definition parser_plugin_process_session ::
  "('p, 'f) extern \<Rightarrow> ('p, 'f) ipx_ctx \<Rightarrow> ipx_msg_session \<Rightarrow> ipx_rc \<times> ('p, 'f) ipx_ctx" where
  "parser_plugin_process_session ext ctx msg =
     (if ipx_msg_session_get_event msg \<noteq> IPX_MSG_SESSION_CLOSE then (IPX_OK, ctx)
      else
        let session = ipx_msg_session_get_session msg;
            (rc, g_msg, parser) = ipx_parser_session_remove ext (cfg ctx) session;
            ctx1 = ctx\<lparr>cfg := parser\<rparr>
        in if rc = IPX_OK then
             (case g_msg of
                None \<Rightarrow> (IPX_OK, IPX_CTX_WARNING ctx1 Allocation_failed)
              | Some g \<Rightarrow> (IPX_OK, ipx_ctx_msg_pass ctx1 (Msg_garbage g)))
           else
             (case rc of
                IPX_ERR_NOTFOUND \<Rightarrow>
                  (IPX_OK, IPX_CTX_WARNING ctx1 (Close_unknown_session (ident session)))
              | _ \<Rightarrow> (IPX_OK, IPX_CTX_ERROR ctx1 (Unexpected_remove_code rc))))"

definition parser_plugin_remove_session ::
  "('p, 'f) extern \<Rightarrow> ('p, 'f) ipx_ctx \<Rightarrow> ipx_session \<Rightarrow> ipx_rc \<times> ('p, 'f) ipx_ctx" where
  "parser_plugin_remove_session ext ctx ts =
     (case ipx_ctx_fpipe_get ctx of
        None \<Rightarrow>
          (let ctx1 = IPX_CTX_WARNING ctx (No_feedback_hard_remove (ident ts));
               (rc, garbage, parser) = ipx_parser_session_remove ext (cfg ctx1) ts;
               ctx2 = ctx1\<lparr>cfg := parser\<rparr>
           in (IPX_OK,
               case garbage of
                 Some g \<Rightarrow> if rc = IPX_OK then ipx_ctx_msg_pass ctx2 (Msg_garbage g) else ctx2
               | None \<Rightarrow> ctx2))
      | Some feedback \<Rightarrow>
          (let ctx1 = ctx\<lparr>cfg := ipx_parser_session_block ext (cfg ctx) ts\<rparr>;
               (rc, feedback1) = ipx_fpipe_write ext feedback ts;
               ctx2 = ctx1\<lparr>ipx_ctx_fpipe_get := Some feedback1\<rparr>
           in if rc \<noteq> IPX_OK then (IPX_ERR_ARG, IPX_CTX_ERROR ctx2 Fatal_internal_error)
              else (IPX_OK, ctx2)))"

definition parser_plugin_process_ipfix ::
  "('p, 'f) extern \<Rightarrow> ('p, 'f) ipx_ctx \<Rightarrow> ipx_msg_ipfix \<Rightarrow> ipx_rc \<times> ('p, 'f) ipx_ctx" where
  "parser_plugin_process_ipfix ext ctx ipfix0 =
     (let (rc, ipfix, garbage, parser) = ipx_parser_process ext (cfg ctx) ipfix0;
          ctx1 = ctx\<lparr>cfg := parser\<rparr>
      in if rc = IPX_OK then
           (let ctx2 = ipx_ctx_msg_pass ctx1 (Msg_ipfix ipfix)
            in (IPX_OK,
                case garbage of
                  Some g \<Rightarrow> ipx_ctx_msg_pass ctx2 (Msg_garbage g)
                | None \<Rightarrow> ctx2))
         else if rc = IPX_ERR_DENIED then (IPX_OK, ipx_msg_ipfix_destroy ctx1 ipfix)
         else
           (let msg_ctx = ipx_msg_ipfix_get_ctx ipfix
            in if rc = IPX_ERR_FORMAT \<and> session_type (session msg_ctx) = FDS_SESSION_UDP
               then (IPX_OK, ipx_msg_ipfix_destroy ctx1 ipfix)
               else
                 (let (rc1, ctx2) = parser_plugin_remove_session ext ctx1 (session msg_ctx)
                  in (rc1, ipx_msg_ipfix_destroy ctx2 ipfix))))"

definition parser_plugin_process ::
  "('p, 'f) extern \<Rightarrow> ('p, 'f) ipx_ctx \<Rightarrow> ipx_msg \<Rightarrow> ipx_rc \<times> ('p, 'f) ipx_ctx" where
  "parser_plugin_process ext ctx msg =
     (let (rc, ctx1) =
        (case msg of
           Msg_ipfix ipfix \<Rightarrow> parser_plugin_process_ipfix ext ctx ipfix
         | Msg_session smsg \<Rightarrow>
             (let (rc0, ctx0) = parser_plugin_process_session ext ctx smsg
              in (rc0, ipx_ctx_msg_pass ctx0 msg))
         | _ \<Rightarrow>
             (IPX_OK, ipx_ctx_msg_pass (IPX_CTX_WARNING ctx Unexpected_message_type) msg))
      in if rc \<noteq> IPX_OK then (IPX_ERR_NOMEM, ctx1) else (IPX_OK, ctx1))"

text \<open>
  \<open>IPX_PU_IEMGR\<close> (plugins.h, not among the sources) is a parameter: the flag of the
  change mask \<open>what\<close> (a \<open>uint16_t\<close>) that stands for the dictionary.
\<close>

definition parser_plugin_update_prepare ::
  "16 word \<Rightarrow> ('p, 'f) ipx_ctx \<Rightarrow> 16 word \<Rightarrow> string \<Rightarrow> ipx_rc \<times> ('p, 'f) ipx_ctx" where
  "parser_plugin_update_prepare IPX_PU_IEMGR ctx what params =
     (if what AND IPX_PU_IEMGR = 0 then (IPX_OK, ctx) else (IPX_READY, ctx))"

text \<open>\<open>struct parser_plugin_update_fail\<close>; its \<open>ctx\<close> is the context threaded along.\<close>

record parser_plugin_update_fail =
  status :: ipx_rc

definition parser_plugin_update_fail_cb ::
  "('p, 'f) extern \<Rightarrow> ipx_session \<Rightarrow> parser_plugin_update_fail \<times> ('p, 'f) ipx_ctx
     \<Rightarrow> parser_plugin_update_fail \<times> ('p, 'f) ipx_ctx" where
  "parser_plugin_update_fail_cb ext ts = (\<lambda>(fail_data, ctx).
     if status fail_data \<noteq> IPX_OK then (fail_data, ctx)
     else
       (let (rc, ctx1) = parser_plugin_remove_session ext ctx ts
        in if rc \<noteq> IPX_OK then (fail_data\<lparr>status := rc\<rparr>, ctx1) else (fail_data, ctx1)))"

definition parser_plugin_update_commit ::
  "('p, 'f) extern \<Rightarrow> ('p, 'f) ipx_ctx \<Rightarrow> ipx_rc \<times> ('p, 'f) ipx_ctx" where
  "parser_plugin_update_commit ext ctx =
     (let iemgr = ipx_ctx_iemgr_get ctx;
          (rc, garbage, parser) = ipx_parser_ie_source ext (cfg ctx) iemgr;
          ctx1 = ctx\<lparr>cfg := parser\<rparr>
      in if rc = IPX_OK then
           (IPX_OK,
            case garbage of
              Some g \<Rightarrow> ipx_ctx_msg_pass ctx1 (Msg_garbage g)
            | None \<Rightarrow> ctx1)
         else
           (let (data, ctx2) =
                  ipx_parser_session_for ext (parser_plugin_update_fail_cb ext)
                    \<lparr>status = IPX_OK\<rparr> ctx1
            in if status data \<noteq> IPX_OK then (IPX_ERR_DENIED, ctx2) else (IPX_OK, ctx2)))"

definition parser_plugin_update_abort :: "('p, 'f) ipx_ctx \<Rightarrow> ('p, 'f) ipx_ctx" where
  "parser_plugin_update_abort ctx = ctx"

text \<open>
  The fallback of the commit read as a loop with an early exit: close the sessions in
  turn with \<open>parser_plugin_remove_session\<close> and stop at the first closure that fails.
  The code itself runs the callback on every session; the two are compared below.
\<close>

fun close_sessions_until_failure ::
  "('p, 'f) extern \<Rightarrow> ipx_session list \<Rightarrow> ('p, 'f) ipx_ctx \<Rightarrow> ipx_rc \<times> ('p, 'f) ipx_ctx" where
  "close_sessions_until_failure ext [] ctx = (IPX_OK, ctx)"
| "close_sessions_until_failure ext (ts # tss) ctx =
     (let (rc, ctx1) = parser_plugin_remove_session ext ctx ts
      in if rc \<noteq> IPX_OK then (rc, ctx1) else close_sessions_until_failure ext tss ctx1)"

section \<open>A Registry and a feedback pipe for concrete runs\<close>

text \<open>
  Modelled from the spec: a Registry that follows the contract of the spec's section 6.
  It knows a list of sessions and a list of blocked ones. \<open>process\<close> denies a message
  of a blocked session, reports a format error for an empty packet, and otherwise
  succeeds, learning the session; the first byte of the packet, when not zero, is the
  handle of the garbage message it returns. \<open>session_remove\<close> forgets a known session
  (garbage handle 100) and reports not-found for any other, changing nothing.
  \<open>ie_source\<close> fails with no memory for the dictionary 0.
\<close>

record stub_parser =
  known :: "ipx_session list"
  blocked :: "ipx_session list"

definition stub_process ::
  "stub_parser \<Rightarrow> ipx_msg_ipfix \<Rightarrow> ipx_rc \<times> ipx_msg_ipfix \<times> addr option \<times> stub_parser" where
  "stub_process p m =
     (let ts = session (ipx_msg_ipfix_get_ctx m)
      in if ts \<in> set (blocked p) then (IPX_ERR_DENIED, m, None, p)
         else case raw_pkt m of
           [] \<Rightarrow> (IPX_ERR_FORMAT, m, None, p)
         | b # _ \<Rightarrow>
             (IPX_OK, m, if b = 0 then None else Some (unat b),
              p\<lparr>known := List.insert ts (known p)\<rparr>))"

definition stub_session_remove ::
  "stub_parser \<Rightarrow> ipx_session \<Rightarrow> ipx_rc \<times> addr option \<times> stub_parser" where
  "stub_session_remove p ts =
     (if ts \<in> set (known p)
      then (IPX_OK, Some 100,
            p\<lparr>known := removeAll ts (known p), blocked := removeAll ts (blocked p)\<rparr>)
      else (IPX_ERR_NOTFOUND, None, p))"

definition stub_session_block :: "stub_parser \<Rightarrow> ipx_session \<Rightarrow> stub_parser" where
  "stub_session_block p ts = p\<lparr>blocked := List.insert ts (blocked p)\<rparr>"

definition stub_ie_source :: "stub_parser \<Rightarrow> nat \<Rightarrow> ipx_rc \<times> addr option \<times> stub_parser" where
  "stub_ie_source p iemgr =
     (if iemgr = 0 then (IPX_ERR_NOMEM, None, p) else (IPX_OK, Some 200, p))"

text \<open>
  Modelled from the spec: a feedback pipe (\<open>write(session) -> Ok | Err\<close>) that records
  the close requests it accepted and fails every write once it is broken.
\<close>

record stub_fpipe =
  requests :: "ipx_session list"
  broken :: bool

definition stub_fpipe_write :: "stub_fpipe \<Rightarrow> ipx_session \<Rightarrow> ipx_rc \<times> stub_fpipe" where
  "stub_fpipe_write f ts =
     (if broken f then (IPX_ERR_ARG, f) else (IPX_OK, f\<lparr>requests := requests f @ [ts]\<rparr>))"

definition stub :: "(stub_parser, stub_fpipe) extern" where
  "stub = \<lparr>ipx_parser_process = stub_process,
           ipx_parser_session_remove = stub_session_remove,
           ipx_parser_session_block = stub_session_block,
           ipx_parser_sessions = known,
           ipx_parser_ie_source = stub_ie_source,
           ipx_fpipe_write = stub_fpipe_write\<rparr>"

definition udp_a :: ipx_session where
  "udp_a = \<lparr>session_type = FDS_SESSION_UDP, ident = ''udp-a''\<rparr>"

definition tcp_a :: ipx_session where
  "tcp_a = \<lparr>session_type = FDS_SESSION_TCP, ident = ''tcp-a''\<rparr>"

definition tcp_b :: ipx_session where
  "tcp_b = \<lparr>session_type = FDS_SESSION_TCP, ident = ''tcp-b''\<rparr>"

definition ipfix_of :: "ipx_session \<Rightarrow> 8 word list \<Rightarrow> ipx_msg_ipfix" where
  "ipfix_of ts pkt = \<lparr>ipx_msg_ipfix_get_ctx = \<lparr>session = ts\<rparr>, raw_pkt = pkt\<rparr>"

definition ctx0 ::
  "ipx_session list \<Rightarrow> stub_fpipe option \<Rightarrow> nat \<Rightarrow> (stub_parser, stub_fpipe) ipx_ctx" where
  "ctx0 tss fb iemgr =
     \<lparr>cfg = \<lparr>known = tss, blocked = []\<rparr>, ipx_ctx_fpipe_get = fb, ipx_ctx_iemgr_get = iemgr,
      passed = [], destroyed = [], log = []\<rparr>"

section \<open>Properties of the garbage message\<close>

text \<open>
  C4. A handle created by \<open>ipx_msg_garbage_create object destructor\<close> and destroyed
  later, in any memory where its envelope is still the one that was created, has its
  destructor run exactly once on the stored object: the objects afterwards are the
  result of one application of the destructor to \<open>object\<close>, the envelope is released,
  and no second call can run the destructor again (the handle is no longer valid).
\<close>

theorem garbage_destructor_exactly_once:
  assumes "ipx_msg_garbage_create malloc object (Some destructor) m = Inr (Some h, m1)"
    and "envelopes m2 h = envelopes m1 h"
  shows "\<exists>m3. ipx_msg_garbage_destroy h m2 = Inr m3
           \<and> objects m3 = destructor object (objects m2)
           \<and> envelopes m3 = (envelopes m2)(h := None)
           \<and> ipx_msg_garbage_destroy h m3 = Inl Invalid_pointer"
proof -
  from assms(1) have "envelopes m1 h =
      Some \<lparr>msg_header = ipx_msg_header_init IPX_MSG_GARBAGE,
            object_ptr = object, object_destructor = Some destructor\<rparr>"
    by (auto simp: ipx_msg_garbage_create_def split: option.splits)
  with assms(2) show ?thesis
    by (simp add: ipx_msg_garbage_destroy_def Let_def)
qed

theorem garbage_destructor_exactly_once_witness:
  "ipx_msg_garbage_create (malloc_first_free [7, 8]) 42 (Some counting_destructor) mem0
     = Inr (Some 7, mem0\<lparr>envelopes := [7 \<mapsto>
          \<lparr>msg_header = \<lparr>msg_type = IPX_MSG_GARBAGE\<rparr>, object_ptr = 42,
           object_destructor = Some counting_destructor\<rparr>]\<rparr>)
   \<and> (\<exists>m3. ipx_msg_garbage_destroy 7
              (mem0\<lparr>envelopes := [7 \<mapsto>
                 \<lparr>msg_header = \<lparr>msg_type = IPX_MSG_GARBAGE\<rparr>, object_ptr = 42,
                  object_destructor = Some counting_destructor\<rparr>]\<rparr>) = Inr m3
          \<and> objects m3 42 = 1
          \<and> ipx_msg_garbage_destroy 7 m3 = Inl Invalid_pointer)"
proof -
  let ?g = "\<lparr>msg_header = \<lparr>msg_type = IPX_MSG_GARBAGE\<rparr>, object_ptr = 42,
             object_destructor = Some counting_destructor\<rparr>"
  let ?m1 = "mem0\<lparr>envelopes := [7 \<mapsto> ?g]\<rparr>"
  have c: "ipx_msg_garbage_create (malloc_first_free [7, 8]) 42 (Some counting_destructor) mem0
             = Inr (Some 7, ?m1)"
    by (simp add: ipx_msg_garbage_create_def malloc_first_free_def mem0_def
        ipx_msg_header_init_def)
  from garbage_destructor_exactly_once [OF c refl]
  obtain m3 where "ipx_msg_garbage_destroy 7 ?m1 = Inr m3"
    and "objects m3 = counting_destructor 42 (objects ?m1)"
    and "ipx_msg_garbage_destroy 7 m3 = Inl Invalid_pointer"
    by blast
  then show ?thesis
    using c by (simp add: counting_destructor_def mem0_def)
qed

text \<open>
  C9. With a non-null destructor, \<open>ipx_msg_garbage_create\<close> returns; it returns the
  null handle exactly when the allocation fails, and then the memory is unchanged;
  otherwise the handle is the allocated block, whose envelope has the type
  \<open>IPX_MSG_GARBAGE\<close> and stores the given object pointer and destructor, and the
  objects and every other envelope are as before.
\<close>

theorem garbage_create_result:
  assumes "callback \<noteq> None"
  shows "\<exists>h m'. ipx_msg_garbage_create malloc object callback m = Inr (h, m')
           \<and> (h = None \<longleftrightarrow> malloc m = None)
           \<and> (h = None \<longrightarrow> m' = m)
           \<and> objects m' = objects m
           \<and> (\<forall>a. h = Some a \<longrightarrow>
                 malloc m = Some a
               \<and> (\<exists>g. envelopes m' a = Some g
                    \<and> msg_type (msg_header g) = IPX_MSG_GARBAGE
                    \<and> object_ptr g = object
                    \<and> object_destructor g = callback)
               \<and> (\<forall>b. b \<noteq> a \<longrightarrow> envelopes m' b = envelopes m b))"
  using assms
  by (cases "malloc m")
     (simp_all add: ipx_msg_garbage_create_def ipx_msg_header_init_def)

theorem garbage_create_result_witness:
  "(Some counting_destructor \<noteq> None)
   \<and> ipx_msg_garbage_create (malloc_first_free [7, 8]) 42 (Some counting_destructor) mem0
       = Inr (Some 7, mem0\<lparr>envelopes := [7 \<mapsto>
            \<lparr>msg_header = \<lparr>msg_type = IPX_MSG_GARBAGE\<rparr>, object_ptr = 42,
             object_destructor = Some counting_destructor\<rparr>]\<rparr>)
   \<and> ipx_msg_garbage_create (malloc_first_free []) 42 (Some counting_destructor) mem0
       = Inr (None, mem0)"
proof -
  have nn: "Some counting_destructor \<noteq> None" by simp
  from garbage_create_result [OF nn, of "malloc_first_free [7, 8]" 42 mem0]
  have "\<exists>h m'. ipx_msg_garbage_create (malloc_first_free [7, 8]) 42
                 (Some counting_destructor) mem0 = Inr (h, m')" by blast
  then show ?thesis
    by (simp add: ipx_msg_garbage_create_def malloc_first_free_def mem0_def
        ipx_msg_header_init_def)
qed

section \<open>Properties of the parser plugin\<close>

subsection \<open>Return codes of the message handlers\<close>

lemma process_ipfix_rc:
  assumes "ipx_parser_process ext (cfg ctx) ipfix0 = (rc, ipfix, garbage, parser)"
  shows "fst (parser_plugin_process_ipfix ext ctx ipfix0) =
           (if rc \<noteq> IPX_OK \<and> rc \<noteq> IPX_ERR_DENIED
               \<and> \<not> (rc = IPX_ERR_FORMAT
                     \<and> session_type (session (ipx_msg_ipfix_get_ctx ipfix)) = FDS_SESSION_UDP)
               \<and> (case ipx_ctx_fpipe_get ctx of
                     None \<Rightarrow> False
                   | Some feedback \<Rightarrow>
                       fst (ipx_fpipe_write ext feedback
                              (session (ipx_msg_ipfix_get_ctx ipfix))) \<noteq> IPX_OK)
            then IPX_ERR_ARG else IPX_OK)"
  using assms
  by (simp add: parser_plugin_process_ipfix_def parser_plugin_remove_session_def Let_def
      split: option.splits prod.splits)

lemma process_session_rc: "fst (parser_plugin_process_session ext ctx smsg) = IPX_OK"
  by (simp add: parser_plugin_process_session_def Let_def
      split: option.splits prod.splits ipx_rc.splits)

lemma and_flag_bit: "(what AND 2 ^ n = 0) = (\<not> bit (what :: 16 word) n)"
  by (rule and_exp_eq_0_iff_not_bit)

lemma update_fail_cb_step:
  "parser_plugin_update_fail_cb ext ts (fail_data, ctx) =
     (if status fail_data \<noteq> IPX_OK then (fail_data, ctx)
      else
        (let (rc, ctx1) = parser_plugin_remove_session ext ctx ts
         in if rc \<noteq> IPX_OK then (fail_data\<lparr>status := rc\<rparr>, ctx1) else (fail_data, ctx1)))"
  by (simp add: parser_plugin_update_fail_cb_def)

lemma update_fail_cb_after_failure:
  "st \<noteq> IPX_OK \<Longrightarrow>
   fold (parser_plugin_update_fail_cb ext) tss (\<lparr>status = st\<rparr>, ctx) = (\<lparr>status = st\<rparr>, ctx)"
  by (induction tss) (simp_all add: update_fail_cb_step)

lemma update_fail_cb_fold:
  "fold (parser_plugin_update_fail_cb ext) tss (\<lparr>status = IPX_OK\<rparr>, ctx) =
     (\<lparr>status = fst (close_sessions_until_failure ext tss ctx)\<rparr>,
      snd (close_sessions_until_failure ext tss ctx))"
proof (induction tss arbitrary: ctx)
  case Nil
  show ?case by simp
next
  case (Cons ts tss)
  obtain rc ctx1 where r: "parser_plugin_remove_session ext ctx ts = (rc, ctx1)"
    by (cases "parser_plugin_remove_session ext ctx ts")
  show ?case
  proof (cases "rc = IPX_OK")
    case True
    with r Cons.IH [of ctx1] show ?thesis
      by (simp add: update_fail_cb_step)
  next
    case False
    with r update_fail_cb_after_failure [of rc ext tss ctx1] show ?thesis
      by (simp add: update_fail_cb_step)
  qed
qed

subsection \<open>IPFIX Messages\<close>

text \<open>
  C1. When the Registry's \<open>process\<close> succeeds and returns a garbage message,
  \<open>parser_plugin_process_ipfix\<close> (and \<open>parser_plugin_process\<close> on the IPFIX Message)
  returns \<open>IPX_OK\<close> and passes exactly two messages: the parsed IPFIX Message, and
  immediately after it the garbage message.
\<close>

theorem ipfix_forwarded_before_garbage:
  assumes "ipx_parser_process ext (cfg ctx) ipfix0 = (IPX_OK, ipfix, Some g, parser)"
  shows "parser_plugin_process_ipfix ext ctx ipfix0 =
           (IPX_OK, ctx\<lparr>cfg := parser,
                        passed := passed ctx @ [Msg_ipfix ipfix, Msg_garbage g]\<rparr>)
       \<and> parser_plugin_process ext ctx (Msg_ipfix ipfix0) =
           (IPX_OK, ctx\<lparr>cfg := parser,
                        passed := passed ctx @ [Msg_ipfix ipfix, Msg_garbage g]\<rparr>)"
  using assms
  by (simp add: parser_plugin_process_def parser_plugin_process_ipfix_def
      ipx_ctx_msg_pass_def)

theorem ipfix_forwarded_before_garbage_witness:
  "ipx_parser_process stub (cfg (ctx0 [] None 1)) (ipfix_of tcp_a [9, 1])
     = (IPX_OK, ipfix_of tcp_a [9, 1], Some 9, \<lparr>known = [tcp_a], blocked = []\<rparr>)
   \<and> parser_plugin_process stub (ctx0 [] None 1) (Msg_ipfix (ipfix_of tcp_a [9, 1]))
     = (IPX_OK, (ctx0 [] None 1)\<lparr>cfg := \<lparr>known = [tcp_a], blocked = []\<rparr>,
          passed := [Msg_ipfix (ipfix_of tcp_a [9, 1]), Msg_garbage 9]\<rparr>)"
proof -
  have h: "ipx_parser_process stub (cfg (ctx0 [] None 1)) (ipfix_of tcp_a [9, 1])
     = (IPX_OK, ipfix_of tcp_a [9, 1], Some 9, \<lparr>known = [tcp_a], blocked = []\<rparr>)"
    by (simp add: stub_def stub_process_def ctx0_def ipfix_of_def)
  from ipfix_forwarded_before_garbage [OF h] show ?thesis
    using h by (simp add: ctx0_def)
qed

text \<open>
  C3. A fatal parse error (the Registry's \<open>process\<close> returns neither success nor
  denial) on a message of a session that is not UDP, with a feedback pipe present:
  \<open>parser_plugin_remove_session\<close> blocks the session in the Registry and writes one
  close request to the feedback pipe (the Registry is the result of one
  \<open>ipx_parser_session_block\<close>, the pipe the result of one \<open>ipx_fpipe_write\<close>), nothing
  is passed on and the message is destroyed. If the write fails, it returns
  \<open>IPX_ERR_ARG\<close>, which \<open>parser_plugin_process\<close> returns to the host as
  \<open>IPX_ERR_NOMEM\<close>; otherwise the result is \<open>IPX_OK\<close>.
\<close>

theorem reliable_fatal_error_blocks_and_requests_close:
  assumes "ipx_parser_process ext (cfg ctx) ipfix0 = (rc, ipfix, garbage, parser)"
    and "rc \<noteq> IPX_OK" and "rc \<noteq> IPX_ERR_DENIED"
    and "ts = session (ipx_msg_ipfix_get_ctx ipfix)"
    and "session_type ts \<noteq> FDS_SESSION_UDP"
    and "ipx_ctx_fpipe_get ctx = Some feedback"
    and "ipx_fpipe_write ext feedback ts = (wrc, feedback1)"
    and "ctx2 = ctx\<lparr>cfg := ipx_parser_session_block ext parser ts,
                     ipx_ctx_fpipe_get := Some feedback1,
                     log := log ctx @ (if wrc = IPX_OK then []
                                       else [(LOG_ERROR, Fatal_internal_error)])\<rparr>"
  shows "parser_plugin_remove_session ext (ctx\<lparr>cfg := parser\<rparr>) ts =
           (if wrc = IPX_OK then IPX_OK else IPX_ERR_ARG, ctx2)
       \<and> parser_plugin_process_ipfix ext ctx ipfix0 =
           (if wrc = IPX_OK then IPX_OK else IPX_ERR_ARG,
            ctx2\<lparr>destroyed := destroyed ctx @ [ipfix]\<rparr>)
       \<and> parser_plugin_process ext ctx (Msg_ipfix ipfix0) =
           (if wrc = IPX_OK then IPX_OK else IPX_ERR_NOMEM,
            ctx2\<lparr>destroyed := destroyed ctx @ [ipfix]\<rparr>)"
proof -
  have rs: "parser_plugin_remove_session ext (ctx\<lparr>cfg := parser\<rparr>) ts =
           (if wrc = IPX_OK then IPX_OK else IPX_ERR_ARG, ctx2)"
    using assms(6,7,8)
    by (simp add: parser_plugin_remove_session_def IPX_CTX_ERROR_def)
  have pi: "parser_plugin_process_ipfix ext ctx ipfix0 =
           (if wrc = IPX_OK then IPX_OK else IPX_ERR_ARG,
            ctx2\<lparr>destroyed := destroyed ctx @ [ipfix]\<rparr>)"
    using assms(1-5) rs assms(8)
    by (simp add: parser_plugin_process_ipfix_def ipx_msg_ipfix_destroy_def)
  have "parser_plugin_process ext ctx (Msg_ipfix ipfix0) =
           (if wrc = IPX_OK then IPX_OK else IPX_ERR_NOMEM,
            ctx2\<lparr>destroyed := destroyed ctx @ [ipfix]\<rparr>)"
    using pi by (simp add: parser_plugin_process_def)
  with rs pi show ?thesis by blast
qed

theorem reliable_fatal_error_blocks_and_requests_close_witness:
  "ipx_parser_process stub (cfg (ctx0 [tcp_a] (Some \<lparr>requests = [], broken = False\<rparr>) 1))
       (ipfix_of tcp_a [])
     = (IPX_ERR_FORMAT, ipfix_of tcp_a [], None, \<lparr>known = [tcp_a], blocked = []\<rparr>)
   \<and> session_type tcp_a \<noteq> FDS_SESSION_UDP
   \<and> ipx_fpipe_write stub \<lparr>requests = [], broken = False\<rparr> tcp_a
     = (IPX_OK, \<lparr>requests = [tcp_a], broken = False\<rparr>)
   \<and> parser_plugin_process stub (ctx0 [tcp_a] (Some \<lparr>requests = [], broken = False\<rparr>) 1)
       (Msg_ipfix (ipfix_of tcp_a []))
     = (IPX_OK,
        \<lparr>cfg = \<lparr>known = [tcp_a], blocked = [tcp_a]\<rparr>,
         ipx_ctx_fpipe_get = Some \<lparr>requests = [tcp_a], broken = False\<rparr>,
         ipx_ctx_iemgr_get = 1, passed = [], destroyed = [ipfix_of tcp_a []], log = []\<rparr>)"
proof -
  let ?ctx = "ctx0 [tcp_a] (Some \<lparr>requests = [], broken = False\<rparr>) 1"
  have p: "ipx_parser_process stub (cfg ?ctx) (ipfix_of tcp_a [])
     = (IPX_ERR_FORMAT, ipfix_of tcp_a [], None, \<lparr>known = [tcp_a], blocked = []\<rparr>)"
    by (simp add: stub_def stub_process_def ctx0_def ipfix_of_def)
  have t: "tcp_a = session (ipx_msg_ipfix_get_ctx (ipfix_of tcp_a []))"
    by (simp add: ipfix_of_def)
  have u: "session_type tcp_a \<noteq> FDS_SESSION_UDP"
    by (simp add: tcp_a_def)
  have f: "ipx_ctx_fpipe_get ?ctx = Some \<lparr>requests = [], broken = False\<rparr>"
    by (simp add: ctx0_def)
  have w: "ipx_fpipe_write stub \<lparr>requests = [], broken = False\<rparr> tcp_a
     = (IPX_OK, \<lparr>requests = [tcp_a], broken = False\<rparr>)"
    by (simp add: stub_def stub_fpipe_write_def)
  from reliable_fatal_error_blocks_and_requests_close [OF p _ _ t u f w refl]
  show ?thesis
    using p u w by (simp add: ctx0_def stub_def stub_session_block_def)
qed

text \<open>
  C7. A format error on a message of a UDP session: \<open>parser_plugin_process\<close> returns
  \<open>IPX_OK\<close>, destroys that message and does nothing else: the Registry is as its
  \<open>process\<close> left it (neither \<open>ipx_parser_session_remove\<close> nor
  \<open>ipx_parser_session_block\<close> is applied), nothing is written to the feedback pipe,
  and the next message that the Registry parses is passed on.
\<close>

theorem udp_format_error_drops_only_the_message:
  assumes "ipx_parser_process ext (cfg ctx) ipfix0 = (IPX_ERR_FORMAT, ipfix, garbage, parser)"
    and "session_type (session (ipx_msg_ipfix_get_ctx ipfix)) = FDS_SESSION_UDP"
    and "ipx_parser_process ext parser next0 = (IPX_OK, next1, garbage1, parser1)"
  shows "parser_plugin_process ext ctx (Msg_ipfix ipfix0) =
           (IPX_OK, ctx\<lparr>cfg := parser, destroyed := destroyed ctx @ [ipfix]\<rparr>)
       \<and> parser_plugin_process ext
            (ctx\<lparr>cfg := parser, destroyed := destroyed ctx @ [ipfix]\<rparr>) (Msg_ipfix next0) =
           (IPX_OK, ctx\<lparr>cfg := parser1, destroyed := destroyed ctx @ [ipfix],
                        passed := passed ctx @ Msg_ipfix next1 #
                          (case garbage1 of Some g \<Rightarrow> [Msg_garbage g] | None \<Rightarrow> [])\<rparr>)"
  using assms
  by (simp add: parser_plugin_process_def parser_plugin_process_ipfix_def
      ipx_msg_ipfix_destroy_def ipx_ctx_msg_pass_def split: option.splits)

theorem udp_format_error_drops_only_the_message_witness:
  "ipx_parser_process stub (cfg (ctx0 [udp_a] None 1)) (ipfix_of udp_a [])
     = (IPX_ERR_FORMAT, ipfix_of udp_a [], None, \<lparr>known = [udp_a], blocked = []\<rparr>)
   \<and> session_type (session (ipx_msg_ipfix_get_ctx (ipfix_of udp_a []))) = FDS_SESSION_UDP
   \<and> ipx_parser_process stub \<lparr>known = [udp_a], blocked = []\<rparr> (ipfix_of udp_a [0])
     = (IPX_OK, ipfix_of udp_a [0], None, \<lparr>known = [udp_a], blocked = []\<rparr>)
   \<and> parser_plugin_process stub (ctx0 [udp_a] None 1) (Msg_ipfix (ipfix_of udp_a []))
     = (IPX_OK, (ctx0 [udp_a] None 1)\<lparr>destroyed := [ipfix_of udp_a []]\<rparr>)
   \<and> parser_plugin_process stub ((ctx0 [udp_a] None 1)\<lparr>destroyed := [ipfix_of udp_a []]\<rparr>)
        (Msg_ipfix (ipfix_of udp_a [0]))
     = (IPX_OK, (ctx0 [udp_a] None 1)\<lparr>destroyed := [ipfix_of udp_a []],
                  passed := [Msg_ipfix (ipfix_of udp_a [0])]\<rparr>)"
proof -
  have p: "ipx_parser_process stub (cfg (ctx0 [udp_a] None 1)) (ipfix_of udp_a [])
     = (IPX_ERR_FORMAT, ipfix_of udp_a [], None, \<lparr>known = [udp_a], blocked = []\<rparr>)"
    by (simp add: stub_def stub_process_def ctx0_def ipfix_of_def)
  have u: "session_type (session (ipx_msg_ipfix_get_ctx (ipfix_of udp_a []))) = FDS_SESSION_UDP"
    by (simp add: ipfix_of_def udp_a_def)
  have n: "ipx_parser_process stub \<lparr>known = [udp_a], blocked = []\<rparr> (ipfix_of udp_a [0])
     = (IPX_OK, ipfix_of udp_a [0], None, \<lparr>known = [udp_a], blocked = []\<rparr>)"
    by (simp add: stub_def stub_process_def ipfix_of_def)
  from udp_format_error_drops_only_the_message [OF p u n]
  show ?thesis
    using p u n by (simp add: ctx0_def)
qed

text \<open>
  C8. \<open>parser_plugin_process\<close> returns \<open>IPX_OK\<close> or \<open>IPX_ERR_NOMEM\<close>, and
  \<open>IPX_ERR_NOMEM\<close> exactly when the message is an IPFIX Message that sends the plugin
  into the session removal (the Registry reports an error other than denial, and not a
  format error on a UDP session), a feedback pipe exists and the write to it fails. A
  denied message is destroyed, nothing is passed or logged, and the result is
  \<open>IPX_OK\<close>.
\<close>

theorem process_return_contract:
  "(fst (parser_plugin_process ext ctx msg) = IPX_OK
      \<or> fst (parser_plugin_process ext ctx msg) = IPX_ERR_NOMEM)
   \<and> (fst (parser_plugin_process ext ctx msg) = IPX_ERR_NOMEM \<longleftrightarrow>
        (\<exists>ipfix0 rc ipfix garbage parser feedback.
           msg = Msg_ipfix ipfix0
         \<and> ipx_parser_process ext (cfg ctx) ipfix0 = (rc, ipfix, garbage, parser)
         \<and> rc \<noteq> IPX_OK \<and> rc \<noteq> IPX_ERR_DENIED
         \<and> \<not> (rc = IPX_ERR_FORMAT
               \<and> session_type (session (ipx_msg_ipfix_get_ctx ipfix)) = FDS_SESSION_UDP)
         \<and> ipx_ctx_fpipe_get ctx = Some feedback
         \<and> fst (ipx_fpipe_write ext feedback (session (ipx_msg_ipfix_get_ctx ipfix)))
             \<noteq> IPX_OK))
   \<and> (\<forall>ipfix0 ipfix garbage parser.
         msg = Msg_ipfix ipfix0
         \<and> ipx_parser_process ext (cfg ctx) ipfix0 = (IPX_ERR_DENIED, ipfix, garbage, parser)
         \<longrightarrow> parser_plugin_process ext ctx msg =
               (IPX_OK, ctx\<lparr>cfg := parser, destroyed := destroyed ctx @ [ipfix]\<rparr>))"
proof (intro conjI)
  show "fst (parser_plugin_process ext ctx msg) = IPX_OK
      \<or> fst (parser_plugin_process ext ctx msg) = IPX_ERR_NOMEM"
    by (simp add: parser_plugin_process_def split: prod.splits)
next
  show "fst (parser_plugin_process ext ctx msg) = IPX_ERR_NOMEM \<longleftrightarrow>
        (\<exists>ipfix0 rc ipfix garbage parser feedback.
           msg = Msg_ipfix ipfix0
         \<and> ipx_parser_process ext (cfg ctx) ipfix0 = (rc, ipfix, garbage, parser)
         \<and> rc \<noteq> IPX_OK \<and> rc \<noteq> IPX_ERR_DENIED
         \<and> \<not> (rc = IPX_ERR_FORMAT
               \<and> session_type (session (ipx_msg_ipfix_get_ctx ipfix)) = FDS_SESSION_UDP)
         \<and> ipx_ctx_fpipe_get ctx = Some feedback
         \<and> fst (ipx_fpipe_write ext feedback (session (ipx_msg_ipfix_get_ctx ipfix)))
             \<noteq> IPX_OK)"
  proof (cases msg)
    case (Msg_ipfix ipfix0)
    obtain rc ipfix garbage parser where
      p: "ipx_parser_process ext (cfg ctx) ipfix0 = (rc, ipfix, garbage, parser)"
      by (metis prod_cases4)
    have "fst (parser_plugin_process ext ctx msg) = IPX_ERR_NOMEM \<longleftrightarrow>
          fst (parser_plugin_process_ipfix ext ctx ipfix0) \<noteq> IPX_OK"
      using Msg_ipfix by (simp add: parser_plugin_process_def split: prod.splits)
    then show ?thesis
      using Msg_ipfix p process_ipfix_rc [OF p]
      by (auto split: option.splits if_splits)
  next
    case (Msg_session smsg)
    then show ?thesis
      using process_session_rc [of ext ctx smsg]
      by (auto simp: parser_plugin_process_def split: prod.splits)
  qed (simp_all add: parser_plugin_process_def)
next
  show "\<forall>ipfix0 ipfix garbage parser.
         msg = Msg_ipfix ipfix0
         \<and> ipx_parser_process ext (cfg ctx) ipfix0 = (IPX_ERR_DENIED, ipfix, garbage, parser)
         \<longrightarrow> parser_plugin_process ext ctx msg =
               (IPX_OK, ctx\<lparr>cfg := parser, destroyed := destroyed ctx @ [ipfix]\<rparr>)"
    by (simp add: parser_plugin_process_def parser_plugin_process_ipfix_def
        ipx_msg_ipfix_destroy_def)
qed

theorem process_return_contract_witness:
  "ipx_parser_process stub \<lparr>known = [tcp_a], blocked = [tcp_a]\<rparr> (ipfix_of tcp_a [1])
     = (IPX_ERR_DENIED, ipfix_of tcp_a [1], None, \<lparr>known = [tcp_a], blocked = [tcp_a]\<rparr>)
   \<and> parser_plugin_process stub
        ((ctx0 [tcp_a] (Some \<lparr>requests = [tcp_a], broken = False\<rparr>) 1)
           \<lparr>cfg := \<lparr>known = [tcp_a], blocked = [tcp_a]\<rparr>\<rparr>)
        (Msg_ipfix (ipfix_of tcp_a [1]))
     = (IPX_OK,
        (ctx0 [tcp_a] (Some \<lparr>requests = [tcp_a], broken = False\<rparr>) 1)
           \<lparr>cfg := \<lparr>known = [tcp_a], blocked = [tcp_a]\<rparr>,
            destroyed := [ipfix_of tcp_a [1]]\<rparr>)
   \<and> fst (parser_plugin_process stub
            (ctx0 [tcp_a] (Some \<lparr>requests = [], broken = True\<rparr>) 1)
            (Msg_ipfix (ipfix_of tcp_a []))) = IPX_ERR_NOMEM"
proof -
  let ?blocked = "(ctx0 [tcp_a] (Some \<lparr>requests = [tcp_a], broken = False\<rparr>) 1)
           \<lparr>cfg := \<lparr>known = [tcp_a], blocked = [tcp_a]\<rparr>\<rparr>"
  let ?broken = "ctx0 [tcp_a] (Some \<lparr>requests = [], broken = True\<rparr>) 1"
  have d: "ipx_parser_process stub \<lparr>known = [tcp_a], blocked = [tcp_a]\<rparr> (ipfix_of tcp_a [1])
     = (IPX_ERR_DENIED, ipfix_of tcp_a [1], None, \<lparr>known = [tcp_a], blocked = [tcp_a]\<rparr>)"
    by (simp add: stub_def stub_process_def ipfix_of_def)
  have f: "ipx_parser_process stub (cfg ?broken) (ipfix_of tcp_a [])
     = (IPX_ERR_FORMAT, ipfix_of tcp_a [], None, \<lparr>known = [tcp_a], blocked = []\<rparr>)"
    by (simp add: stub_def stub_process_def ipfix_of_def ctx0_def)
  have w: "fst (ipx_fpipe_write stub \<lparr>requests = [], broken = True\<rparr> tcp_a) \<noteq> IPX_OK"
    by (simp add: stub_def stub_fpipe_write_def)
  have t: "session_type (session (ipx_msg_ipfix_get_ctx (ipfix_of tcp_a []))) \<noteq> FDS_SESSION_UDP"
    by (simp add: ipfix_of_def tcp_a_def)
  have s: "session (ipx_msg_ipfix_get_ctx (ipfix_of tcp_a [])) = tcp_a"
    by (simp add: ipfix_of_def)
  have b: "ipx_ctx_fpipe_get ?broken = Some \<lparr>requests = [], broken = True\<rparr>"
    by (simp add: ctx0_def)
  from process_return_contract [of stub ?blocked "Msg_ipfix (ipfix_of tcp_a [1])"] d
  have 1: "parser_plugin_process stub ?blocked (Msg_ipfix (ipfix_of tcp_a [1]))
     = (IPX_OK, ?blocked\<lparr>destroyed := [ipfix_of tcp_a [1]]\<rparr>)"
    by (simp add: ctx0_def)
  from process_return_contract [of stub ?broken "Msg_ipfix (ipfix_of tcp_a [])"]
  have "fst (parser_plugin_process stub ?broken (Msg_ipfix (ipfix_of tcp_a []))) = IPX_ERR_NOMEM
     \<longleftrightarrow> True"
    using f w t s b by simp
  with 1 d show ?thesis by simp
qed

subsection \<open>Session events\<close>

text \<open>
  C6. Of the Session messages only a close event is acted on: any other event
  changes nothing. On a close event \<open>ipx_parser_session_remove\<close> is applied once; its
  garbage message, if the removal succeeded with one, is passed; an unknown session is
  logged with a warning. In every case the Session message itself is passed last and
  the result is \<open>IPX_OK\<close>. When the Registry reports not-found and keeps its state,
  closing the same session a second time does the same again: the Registry, the
  feedback pipe and the destroyed messages are as at the start.
\<close>

theorem session_event_handling:
  "(ipx_msg_session_get_event smsg \<noteq> IPX_MSG_SESSION_CLOSE \<longrightarrow>
      parser_plugin_process ext ctx (Msg_session smsg) =
        (IPX_OK, ctx\<lparr>passed := passed ctx @ [Msg_session smsg]\<rparr>))
   \<and> (\<forall>rc g_msg parser.
        ipx_msg_session_get_event smsg = IPX_MSG_SESSION_CLOSE
        \<and> ipx_parser_session_remove ext (cfg ctx) (ipx_msg_session_get_session smsg)
            = (rc, g_msg, parser)
        \<longrightarrow> parser_plugin_process ext ctx (Msg_session smsg) =
              (IPX_OK,
               ctx\<lparr>cfg := parser,
                   passed := passed ctx @
                     (case g_msg of
                        Some g \<Rightarrow> if rc = IPX_OK then [Msg_garbage g] else []
                      | None \<Rightarrow> [])
                     @ [Msg_session smsg],
                   log := log ctx @
                     (if rc = IPX_OK then
                        (case g_msg of
                           Some g \<Rightarrow> []
                         | None \<Rightarrow> [(LOG_WARNING, Allocation_failed)])
                      else if rc = IPX_ERR_NOTFOUND then
                        [(LOG_WARNING, Close_unknown_session
                            (ident (ipx_msg_session_get_session smsg)))]
                      else [(LOG_ERROR, Unexpected_remove_code rc)])\<rparr>))
   \<and> (\<forall>g_msg.
        ipx_msg_session_get_event smsg = IPX_MSG_SESSION_CLOSE
        \<and> ipx_parser_session_remove ext (cfg ctx) (ipx_msg_session_get_session smsg)
            = (IPX_ERR_NOTFOUND, g_msg, cfg ctx)
        \<longrightarrow> parser_plugin_process ext
              (snd (parser_plugin_process ext ctx (Msg_session smsg))) (Msg_session smsg) =
              (IPX_OK,
               ctx\<lparr>passed := passed ctx @ [Msg_session smsg, Msg_session smsg],
                   log := log ctx @
                     [(LOG_WARNING, Close_unknown_session
                         (ident (ipx_msg_session_get_session smsg))),
                      (LOG_WARNING, Close_unknown_session
                         (ident (ipx_msg_session_get_session smsg)))]\<rparr>))"
proof (intro conjI allI impI)
  assume "ipx_msg_session_get_event smsg \<noteq> IPX_MSG_SESSION_CLOSE"
  then show "parser_plugin_process ext ctx (Msg_session smsg) =
        (IPX_OK, ctx\<lparr>passed := passed ctx @ [Msg_session smsg]\<rparr>)"
    by (simp add: parser_plugin_process_def parser_plugin_process_session_def
        ipx_ctx_msg_pass_def)
next
  fix rc g_msg parser
  assume "ipx_msg_session_get_event smsg = IPX_MSG_SESSION_CLOSE
        \<and> ipx_parser_session_remove ext (cfg ctx) (ipx_msg_session_get_session smsg)
            = (rc, g_msg, parser)"
  then show "parser_plugin_process ext ctx (Msg_session smsg) =
              (IPX_OK,
               ctx\<lparr>cfg := parser,
                   passed := passed ctx @
                     (case g_msg of
                        Some g \<Rightarrow> if rc = IPX_OK then [Msg_garbage g] else []
                      | None \<Rightarrow> [])
                     @ [Msg_session smsg],
                   log := log ctx @
                     (if rc = IPX_OK then
                        (case g_msg of
                           Some g \<Rightarrow> []
                         | None \<Rightarrow> [(LOG_WARNING, Allocation_failed)])
                      else if rc = IPX_ERR_NOTFOUND then
                        [(LOG_WARNING, Close_unknown_session
                            (ident (ipx_msg_session_get_session smsg)))]
                      else [(LOG_ERROR, Unexpected_remove_code rc)])\<rparr>)"
    by (cases rc; cases g_msg)
       (simp_all add: parser_plugin_process_def parser_plugin_process_session_def
        ipx_ctx_msg_pass_def IPX_CTX_WARNING_def IPX_CTX_ERROR_def)
next
  fix g_msg
  assume "ipx_msg_session_get_event smsg = IPX_MSG_SESSION_CLOSE
        \<and> ipx_parser_session_remove ext (cfg ctx) (ipx_msg_session_get_session smsg)
            = (IPX_ERR_NOTFOUND, g_msg, cfg ctx)"
  then show "parser_plugin_process ext
              (snd (parser_plugin_process ext ctx (Msg_session smsg))) (Msg_session smsg) =
              (IPX_OK,
               ctx\<lparr>passed := passed ctx @ [Msg_session smsg, Msg_session smsg],
                   log := log ctx @
                     [(LOG_WARNING, Close_unknown_session
                         (ident (ipx_msg_session_get_session smsg))),
                      (LOG_WARNING, Close_unknown_session
                         (ident (ipx_msg_session_get_session smsg)))]\<rparr>)"
    by (simp add: parser_plugin_process_def parser_plugin_process_session_def
        ipx_ctx_msg_pass_def IPX_CTX_WARNING_def Let_def)
qed

theorem session_event_handling_witness:
  "parser_plugin_process stub (ctx0 [tcp_a] None 1)
       (Msg_session \<lparr>ipx_msg_session_get_event = IPX_MSG_SESSION_OPEN,
                     ipx_msg_session_get_session = tcp_b\<rparr>)
     = (IPX_OK, (ctx0 [tcp_a] None 1)
          \<lparr>passed := [Msg_session \<lparr>ipx_msg_session_get_event = IPX_MSG_SESSION_OPEN,
                                    ipx_msg_session_get_session = tcp_b\<rparr>]\<rparr>)
   \<and> ipx_parser_session_remove stub (cfg (ctx0 [tcp_a] None 1)) tcp_a
     = (IPX_OK, Some 100, \<lparr>known = [], blocked = []\<rparr>)
   \<and> parser_plugin_process stub (ctx0 [tcp_a] None 1)
       (Msg_session \<lparr>ipx_msg_session_get_event = IPX_MSG_SESSION_CLOSE,
                     ipx_msg_session_get_session = tcp_a\<rparr>)
     = (IPX_OK, (ctx0 [tcp_a] None 1)
          \<lparr>cfg := \<lparr>known = [], blocked = []\<rparr>,
           passed := [Msg_garbage 100,
                      Msg_session \<lparr>ipx_msg_session_get_event = IPX_MSG_SESSION_CLOSE,
                                    ipx_msg_session_get_session = tcp_a\<rparr>]\<rparr>)
   \<and> ipx_parser_session_remove stub (cfg (ctx0 [tcp_a] None 1)) tcp_b
     = (IPX_ERR_NOTFOUND, None, cfg (ctx0 [tcp_a] None 1))
   \<and> parser_plugin_process stub
       (snd (parser_plugin_process stub (ctx0 [tcp_a] None 1)
          (Msg_session \<lparr>ipx_msg_session_get_event = IPX_MSG_SESSION_CLOSE,
                        ipx_msg_session_get_session = tcp_b\<rparr>)))
       (Msg_session \<lparr>ipx_msg_session_get_event = IPX_MSG_SESSION_CLOSE,
                     ipx_msg_session_get_session = tcp_b\<rparr>)
     = (IPX_OK, (ctx0 [tcp_a] None 1)
          \<lparr>passed := [Msg_session \<lparr>ipx_msg_session_get_event = IPX_MSG_SESSION_CLOSE,
                                    ipx_msg_session_get_session = tcp_b\<rparr>,
                      Msg_session \<lparr>ipx_msg_session_get_event = IPX_MSG_SESSION_CLOSE,
                                    ipx_msg_session_get_session = tcp_b\<rparr>],
           log := [(LOG_WARNING, Close_unknown_session ''tcp-b''),
                   (LOG_WARNING, Close_unknown_session ''tcp-b'')]\<rparr>)"
proof -
  let ?ctx = "ctx0 [tcp_a] None 1"
  let ?open = "\<lparr>ipx_msg_session_get_event = IPX_MSG_SESSION_OPEN,
                ipx_msg_session_get_session = tcp_b\<rparr>"
  let ?close_a = "\<lparr>ipx_msg_session_get_event = IPX_MSG_SESSION_CLOSE,
                   ipx_msg_session_get_session = tcp_a\<rparr>"
  let ?close_b = "\<lparr>ipx_msg_session_get_event = IPX_MSG_SESSION_CLOSE,
                   ipx_msg_session_get_session = tcp_b\<rparr>"
  have ra: "ipx_parser_session_remove stub (cfg ?ctx) tcp_a
     = (IPX_OK, Some 100, \<lparr>known = [], blocked = []\<rparr>)"
    by (simp add: stub_def stub_session_remove_def ctx0_def)
  have rb: "ipx_parser_session_remove stub (cfg ?ctx) tcp_b
     = (IPX_ERR_NOTFOUND, None, cfg ?ctx)"
    by (simp add: stub_def stub_session_remove_def ctx0_def tcp_a_def tcp_b_def)
  from session_event_handling [of ?open stub ?ctx]
  have 1: "parser_plugin_process stub ?ctx (Msg_session ?open)
     = (IPX_OK, ?ctx\<lparr>passed := [Msg_session ?open]\<rparr>)"
    by (simp add: ctx0_def)
  from session_event_handling [of ?close_a stub ?ctx] ra
  have 2: "parser_plugin_process stub ?ctx (Msg_session ?close_a)
     = (IPX_OK, ?ctx\<lparr>cfg := \<lparr>known = [], blocked = []\<rparr>,
          passed := [Msg_garbage 100, Msg_session ?close_a]\<rparr>)"
    by (simp add: ctx0_def)
  have e: "ipx_msg_session_get_event ?close_b = IPX_MSG_SESSION_CLOSE
      \<and> ipx_parser_session_remove stub (cfg ?ctx) (ipx_msg_session_get_session ?close_b)
          = (IPX_ERR_NOTFOUND, None, cfg ?ctx)"
    using rb by simp
  from session_event_handling [of ?close_b stub ?ctx] e
  have "parser_plugin_process stub
       (snd (parser_plugin_process stub ?ctx (Msg_session ?close_b))) (Msg_session ?close_b)
     = (IPX_OK, ?ctx\<lparr>passed := passed ?ctx @ [Msg_session ?close_b, Msg_session ?close_b],
          log := log ?ctx @
            [(LOG_WARNING, Close_unknown_session (ident (ipx_msg_session_get_session ?close_b))),
             (LOG_WARNING, Close_unknown_session (ident (ipx_msg_session_get_session ?close_b)))]\<rparr>)"
    by blast
  then have 3: "parser_plugin_process stub
       (snd (parser_plugin_process stub ?ctx (Msg_session ?close_b))) (Msg_session ?close_b)
     = (IPX_OK, ?ctx\<lparr>passed := [Msg_session ?close_b, Msg_session ?close_b],
          log := [(LOG_WARNING, Close_unknown_session ''tcp-b''),
                  (LOG_WARNING, Close_unknown_session ''tcp-b'')]\<rparr>)"
    by (simp add: ctx0_def tcp_b_def)
  from 1 2 3 ra rb show ?thesis by blast
qed

subsection \<open>Removal of a session\<close>

text \<open>
  C10. Without a feedback pipe, \<open>parser_plugin_remove_session\<close> returns \<open>IPX_OK\<close>
  whatever \<open>ipx_parser_session_remove\<close> returns, and passes a garbage message only when
  the removal returned \<open>IPX_OK\<close> and a garbage message.
\<close>

theorem remove_session_without_feedback:
  assumes "ipx_ctx_fpipe_get ctx = None"
    and "ipx_parser_session_remove ext (cfg ctx) ts = (rc, garbage, parser)"
  shows "parser_plugin_remove_session ext ctx ts =
           (IPX_OK,
            ctx\<lparr>cfg := parser,
                passed := passed ctx @
                  (case garbage of
                     Some g \<Rightarrow> if rc = IPX_OK then [Msg_garbage g] else []
                   | None \<Rightarrow> []),
                log := log ctx @ [(LOG_WARNING, No_feedback_hard_remove (ident ts))]\<rparr>)"
  using assms
  by (simp add: parser_plugin_remove_session_def ipx_ctx_msg_pass_def IPX_CTX_WARNING_def
      Let_def split: option.splits)

theorem remove_session_without_feedback_witness:
  "ipx_ctx_fpipe_get (ctx0 [udp_a] None 1) = None
   \<and> ipx_parser_session_remove stub (cfg (ctx0 [udp_a] None 1)) tcp_a
       = (IPX_ERR_NOTFOUND, None, \<lparr>known = [udp_a], blocked = []\<rparr>)
   \<and> parser_plugin_remove_session stub (ctx0 [udp_a] None 1) tcp_a
       = (IPX_OK, (ctx0 [udp_a] None 1)
            \<lparr>log := [(LOG_WARNING, No_feedback_hard_remove ''tcp-a'')]\<rparr>)
   \<and> ipx_parser_session_remove stub (cfg (ctx0 [udp_a] None 1)) udp_a
       = (IPX_OK, Some 100, \<lparr>known = [], blocked = []\<rparr>)
   \<and> parser_plugin_remove_session stub (ctx0 [udp_a] None 1) udp_a
       = (IPX_OK, (ctx0 [udp_a] None 1)
            \<lparr>cfg := \<lparr>known = [], blocked = []\<rparr>, passed := [Msg_garbage 100],
             log := [(LOG_WARNING, No_feedback_hard_remove ''udp-a'')]\<rparr>)"
proof -
  have f: "ipx_ctx_fpipe_get (ctx0 [udp_a] None 1) = None"
    by (simp add: ctx0_def)
  have r1: "ipx_parser_session_remove stub (cfg (ctx0 [udp_a] None 1)) tcp_a
       = (IPX_ERR_NOTFOUND, None, \<lparr>known = [udp_a], blocked = []\<rparr>)"
    by (simp add: stub_def stub_session_remove_def ctx0_def udp_a_def tcp_a_def)
  have r2: "ipx_parser_session_remove stub (cfg (ctx0 [udp_a] None 1)) udp_a
       = (IPX_OK, Some 100, \<lparr>known = [], blocked = []\<rparr>)"
    by (simp add: stub_def stub_session_remove_def ctx0_def)
  from remove_session_without_feedback [OF f r1] remove_session_without_feedback [OF f r2]
  show ?thesis
    using f r1 r2 by (simp add: ctx0_def udp_a_def tcp_a_def)
qed

subsection \<open>Update of the dictionary\<close>

text \<open>
  C5. \<open>parser_plugin_update_prepare\<close> returns \<open>IPX_OK\<close> (nothing to do) when the
  change mask has no bit in common with \<open>IPX_PU_IEMGR\<close> and \<open>IPX_READY\<close> when it has;
  for a flag that is the single bit \<open>n\<close>, that is whether bit \<open>n\<close> of the mask is
  set. It leaves the context and the parser as they are, and so does
  \<open>parser_plugin_update_abort\<close>.
\<close>

theorem update_prepare_and_abort_change_nothing:
  "parser_plugin_update_prepare IPX_PU_IEMGR ctx what params =
     (if what AND IPX_PU_IEMGR = 0 then IPX_OK else IPX_READY, ctx)
   \<and> parser_plugin_update_prepare (push_bit n 1) ctx what params =
     (if bit what n then IPX_READY else IPX_OK, ctx)
   \<and> parser_plugin_update_abort ctx = ctx"
  by (simp add: parser_plugin_update_prepare_def parser_plugin_update_abort_def and_flag_bit)

text \<open>
  C2 as stated fails: with two known sessions, a failed rebind and a feedback pipe
  whose write fails, the commit closes the first session only; the second one is known
  and never blocked, and a single error is logged.
\<close>

theorem update_commit_skips_sessions_after_failure:
  "ipx_parser_ie_source stub
       (cfg (ctx0 [tcp_a, tcp_b] (Some \<lparr>requests = [], broken = True\<rparr>) 0)) 0
     = (IPX_ERR_NOMEM, None, \<lparr>known = [tcp_a, tcp_b], blocked = []\<rparr>)
   \<and> ipx_parser_sessions stub \<lparr>known = [tcp_a, tcp_b], blocked = []\<rparr> = [tcp_a, tcp_b]
   \<and> parser_plugin_update_commit stub
        (ctx0 [tcp_a, tcp_b] (Some \<lparr>requests = [], broken = True\<rparr>) 0)
     = (IPX_ERR_DENIED,
        \<lparr>cfg = \<lparr>known = [tcp_a, tcp_b], blocked = [tcp_a]\<rparr>,
         ipx_ctx_fpipe_get = Some \<lparr>requests = [], broken = True\<rparr>,
         ipx_ctx_iemgr_get = 0, passed = [], destroyed = [],
         log = [(LOG_ERROR, Fatal_internal_error)]\<rparr>)
   \<and> tcp_b \<notin> set (blocked (cfg (snd (parser_plugin_update_commit stub
        (ctx0 [tcp_a, tcp_b] (Some \<lparr>requests = [], broken = True\<rparr>) 0)))))"
  by (simp add: parser_plugin_update_commit_def ipx_parser_session_for_def
      update_fail_cb_step parser_plugin_remove_session_def IPX_CTX_ERROR_def
      stub_def stub_ie_source_def stub_session_block_def stub_fpipe_write_def ctx0_def
      tcp_a_def tcp_b_def)

text \<open>
  C2, amended. When the rebind fails, \<open>parser_plugin_update_commit\<close> closes the
  sessions known to the Registry in turn with \<open>parser_plugin_remove_session\<close>, up to
  and including the first closure that fails; the sessions after it are left alone.
  It returns \<open>IPX_ERR_DENIED\<close> exactly when a closure failed, and \<open>IPX_OK\<close> after
  closing every session otherwise.
\<close>

theorem update_commit_closes_until_first_failure:
  assumes "ipx_parser_ie_source ext (cfg ctx) (ipx_ctx_iemgr_get ctx) = (rc, garbage, parser)"
    and "rc \<noteq> IPX_OK"
  shows "parser_plugin_update_commit ext ctx =
           (if fst (close_sessions_until_failure ext (ipx_parser_sessions ext parser)
                      (ctx\<lparr>cfg := parser\<rparr>)) \<noteq> IPX_OK
            then IPX_ERR_DENIED else IPX_OK,
            snd (close_sessions_until_failure ext (ipx_parser_sessions ext parser)
                   (ctx\<lparr>cfg := parser\<rparr>)))"
  using assms
  by (simp add: parser_plugin_update_commit_def ipx_parser_session_for_def update_fail_cb_fold)

theorem update_commit_closes_until_first_failure_witness:
  "ipx_parser_ie_source stub (cfg (ctx0 [tcp_a, tcp_b] (Some \<lparr>requests = [], broken = False\<rparr>) 0)) 0
     = (IPX_ERR_NOMEM, None, \<lparr>known = [tcp_a, tcp_b], blocked = []\<rparr>)
   \<and> parser_plugin_update_commit stub
        (ctx0 [tcp_a, tcp_b] (Some \<lparr>requests = [], broken = False\<rparr>) 0)
     = (IPX_OK,
        \<lparr>cfg = \<lparr>known = [tcp_a, tcp_b], blocked = [tcp_b, tcp_a]\<rparr>,
         ipx_ctx_fpipe_get = Some \<lparr>requests = [tcp_a, tcp_b], broken = False\<rparr>,
         ipx_ctx_iemgr_get = 0, passed = [], destroyed = [], log = []\<rparr>)"
proof -
  let ?ctx = "ctx0 [tcp_a, tcp_b] (Some \<lparr>requests = [], broken = False\<rparr>) 0"
  have i: "ipx_parser_ie_source stub (cfg ?ctx) (ipx_ctx_iemgr_get ?ctx)
     = (IPX_ERR_NOMEM, None, \<lparr>known = [tcp_a, tcp_b], blocked = []\<rparr>)"
    by (simp add: stub_def stub_ie_source_def ctx0_def)
  have n: "IPX_ERR_NOMEM \<noteq> IPX_OK" by simp
  from update_commit_closes_until_first_failure [OF i n]
  show ?thesis
    using i
    by (simp add: parser_plugin_remove_session_def stub_def stub_session_block_def
        stub_fpipe_write_def ctx0_def tcp_a_def tcp_b_def)
qed

end
